theory Spec2Isabelle
  imports Complex_Main "HOL-Library.Char_ord" "HOL-Library.List_Lexorder"
begin

section \<open>Python strings\<close>

text \<open>
  A Python \<open>str\<close> is modelled as a \<open>string\<close> whose characters are the code points below
  256, less U+00B5 and U+00FF: the title-case forms of these two, U+039C and U+0178, lie
  beyond 255, and every other code point below 256 stays below 256 under the string
  methods used here. \<open>isspace\<close> is \<open>str.isspace\<close> on those code points: the whitespace
  that \<open>str.strip()\<close> and \<open>str.split()\<close> remove.
\<close>

definition isspace :: "char \<Rightarrow> bool" where
  "isspace c = (of_char c \<in> {9, 10, 11, 12, 13, 28, 29, 30, 31, 32, 133, 160 :: nat})"

definition strip :: "string \<Rightarrow> string" where
  "strip s = rev (dropWhile isspace (rev (dropWhile isspace s)))"

section \<open>Domain types of the search engine\<close>

datatype Language = EN | FR

datatype CompetencyType = OCCUPATION | SKILL | CERTIFICATION

datatype Provider = ESCO | ROME | FORMA | FORMA14

text \<open>
  \<open>data_importer.schemas.Competency\<close>; \<open>domain.types.competency.Competency\<close> has the same
  fields and \<open>metadata\<close>, an open bag that no operation here reads.
\<close>

record Competency =
  code :: string
  lang :: Language
  type :: CompetencyType
  provider :: Provider
  title :: string
  url :: "string option"
  category :: "string option"
  description :: "string option"
  keywords_field :: "string list option"
  indexed_text :: "string option"

record DomainCompetency = Competency +
  metadata :: "(string \<times> string) list option"

record DenseVector =
  dense_values :: "real list"

record SparseVector =
  indices :: "int list"
  sparse_values :: "real list"

datatype VectorName = DENSE | SPARSE

text \<open>\<open>domain/types/identifier.py\<close>: an identifier is used only through its string form.\<close>

type_synonym Identifier = string

record Entity =
  entity_identifier :: Identifier
  competency :: DomainCompetency
  dense_vector :: "DenseVector option"
  sparse_vector :: "SparseVector option"

record SearchResult =
  entity :: Entity
  score :: real

record CreateEntityModel =
  create_competency :: DomainCompetency
  create_dense_vector :: DenseVector
  create_sparse_vector :: SparseVector

text \<open>
  \<open>UpdateEntityModel\<close> is a plain dataclass: \<open>update_entity\<close> passes the stored entity's
  vectors to it as they are, \<open>None\<close> included.
\<close>

record UpdateEntityModel =
  update_identifier :: Identifier
  update_competency :: DomainCompetency
  update_dense_vector :: "DenseVector option"
  update_sparse_vector :: "SparseVector option"

datatype DomainFilterOperator =
  EQUAL | NOT_EQUAL | GREATER_THAN | GREATER_THAN_OR_EQUAL
  | LESS_THAN | LESS_THAN_OR_EQUAL | IN | NOT_IN

text \<open>The \<open>Any\<close> of a filter value.\<close>

datatype py_value =
  PyNone | PyBool bool | PyInt int | PyFloat real | PyStr string | PyList "py_value list"

record DomainFilter =
  field :: string
  operator :: DomainFilterOperator
  filter_value :: py_value

datatype error =
  ValidationError string
  | EntityNotFoundError string
  | EmbeddingError string
  | RepositoryError string

text \<open>\<open>pydantic.ValidationError\<close>, raised by a model that rejects what it is built from.\<close>

datatype pydantic_error = PydanticValidationError

section \<open>Entity service\<close>

text \<open>
  The collaborators of \<open>EntityService\<close>: the two embedding services, whose \<open>encode\<close> returns
  a vector or raises (\<open>Inl\<close> the exception's message), and the repository, whose methods
  return or raise an error of their own. Every call made to them is recorded.
\<close>

record collaborators =
  dense_embedding_service_encode :: "string \<Rightarrow> string + DenseVector"
  sparse_embedding_service_encode :: "string \<Rightarrow> string + SparseVector"
  repository_create_entity :: "CreateEntityModel \<Rightarrow> error + Entity"
  repository_get_entity :: "Identifier \<Rightarrow> error + Entity option"
  repository_update_entity :: "UpdateEntityModel \<Rightarrow> error + Entity"
  repository_delete_entity :: "Identifier \<Rightarrow> error + unit"
  repository_search_by_vector_and_filters ::
    "DenseVector + SparseVector \<Rightarrow> DomainFilter list \<Rightarrow> int \<Rightarrow> VectorName
      \<Rightarrow> error + SearchResult list"
  repository_search_hybrid_by_vectors_and_filters ::
    "DenseVector \<Rightarrow> SparseVector \<Rightarrow> DomainFilter list \<Rightarrow> int \<Rightarrow> error + SearchResult list"

datatype call =
  DenseEncode string
  | SparseEncode string
  | RepoCreate CreateEntityModel
  | RepoGet Identifier
  | RepoUpdate UpdateEntityModel
  | RepoDelete Identifier
  | RepoSearch "DenseVector + SparseVector" "DomainFilter list" int VectorName
  | RepoHybrid DenseVector SparseVector "DomainFilter list" int

text \<open>
  The \<open>try\<close> block shared by \<open>create_entity\<close>, \<open>update_entity\<close> and the hybrid search:
  the dense encoding, then the sparse one; the first exception leaves the block.
\<close>

definition encode_both ::
  "collaborators \<Rightarrow> string \<Rightarrow> call list \<times> (error + DenseVector \<times> SparseVector)" where
  "encode_both c text =
     (case dense_embedding_service_encode c text of
        Inl e \<Rightarrow> ([DenseEncode text], Inl (EmbeddingError (''Encoding error: '' @ e)))
      | Inr dv \<Rightarrow>
          (case sparse_embedding_service_encode c text of
             Inl e \<Rightarrow>
               ([DenseEncode text, SparseEncode text],
                Inl (EmbeddingError (''Encoding error: '' @ e)))
           | Inr sv \<Rightarrow> ([DenseEncode text, SparseEncode text], Inr (dv, sv))))"

definition create_entity ::
  "collaborators \<Rightarrow> DomainCompetency \<Rightarrow> string option \<Rightarrow> call list \<times> (error + Entity)" where
  "create_entity c cpt text =
     (let text1 = (case text of None \<Rightarrow> None
                   | Some t \<Rightarrow> if t \<noteq> [] then Some (strip t) else None)
      in case text1 of
           None \<Rightarrow> ([], Inl (ValidationError ''Text cannot be empty.''))
         | Some t \<Rightarrow>
             if t = [] then ([], Inl (ValidationError ''Text cannot be empty.''))
             else
               (case encode_both c t of
                  (calls, Inl e) \<Rightarrow> (calls, Inl e)
                | (calls, Inr (dv, sv)) \<Rightarrow>
                    (let model = \<lparr>create_competency = cpt, create_dense_vector = dv,
                                   create_sparse_vector = sv\<rparr>
                     in (calls @ [RepoCreate model], repository_create_entity c model))))"

definition get_entity :: "collaborators \<Rightarrow> Identifier \<Rightarrow> call list \<times> (error + Entity)" where
  "get_entity c ident =
     (case repository_get_entity c ident of
        Inl e \<Rightarrow> ([RepoGet ident], Inl e)
      | Inr None \<Rightarrow>
          ([RepoGet ident], Inl (EntityNotFoundError (''Entity '' @ ident @ '' not found'')))
      | Inr (Some ent) \<Rightarrow> ([RepoGet ident], Inr ent))"

definition update_entity ::
  "collaborators \<Rightarrow> Identifier \<Rightarrow> DomainCompetency \<Rightarrow> string option
    \<Rightarrow> call list \<times> (error + Entity)" where
  "update_entity c ident cpt text =
     (case get_entity c ident of
        (calls, Inl e) \<Rightarrow> (calls, Inl e)
      | (calls, Inr ent) \<Rightarrow>
          (if text = None \<or> indexed_text (competency ent) = text then
             (let model = \<lparr>update_identifier = ident, update_competency = cpt,
                            update_dense_vector = dense_vector ent,
                            update_sparse_vector = sparse_vector ent\<rparr>
              in (calls @ [RepoUpdate model], repository_update_entity c model))
           else
             (let t = strip (the text) in
              if t = [] then (calls, Inl (ValidationError ''Text cannot be empty.''))
              else
                (case encode_both c t of
                   (calls2, Inl e) \<Rightarrow> (calls @ calls2, Inl e)
                 | (calls2, Inr (dv, sv)) \<Rightarrow>
                     (let model = \<lparr>update_identifier = ident, update_competency = cpt,
                                    update_dense_vector = Some dv,
                                    update_sparse_vector = Some sv\<rparr>
                      in (calls @ calls2 @ [RepoUpdate model],
                          repository_update_entity c model))))))"

definition delete_entity :: "collaborators \<Rightarrow> Identifier \<Rightarrow> call list \<times> (error + unit)" where
  "delete_entity c ident =
     (case get_entity c ident of
        (calls, Inl e) \<Rightarrow> (calls, Inl e)
      | (calls, Inr ent) \<Rightarrow> (calls @ [RepoDelete ident], repository_delete_entity c ident))"

text \<open>
  \<open>SearchType\<close> is a \<open>StrEnum\<close>: its members are the strings below, and the parameter
  is compared with them by string equality, so any other string reaches the last line.
\<close>

definition SEMANTIC :: string where "SEMANTIC = ''semantic''"
definition SPARSE_SEARCH :: string where "SPARSE_SEARCH = ''sparse''"
definition HYBRID :: string where "HYBRID = ''hybrid''"

definition search_by_text_and_filters_with_type ::
  "collaborators \<Rightarrow> string \<Rightarrow> DomainFilter list \<Rightarrow> int \<Rightarrow> string
    \<Rightarrow> call list \<times> (error + SearchResult list)" where
  "search_by_text_and_filters_with_type c text0 filters top_k search_type =
     (let text = strip text0 in
      if text = [] then ([], Inl (ValidationError ''Searched text cannot be empty.''))
      else if search_type = SEMANTIC then
        (case dense_embedding_service_encode c text of
           Inl e \<Rightarrow> ([DenseEncode text], Inl (EmbeddingError (''Dense encoding error: '' @ e)))
         | Inr dv \<Rightarrow>
             ([DenseEncode text, RepoSearch (Inl dv) filters top_k DENSE],
              repository_search_by_vector_and_filters c (Inl dv) filters top_k DENSE))
      else if search_type = SPARSE_SEARCH then
        (case sparse_embedding_service_encode c text of
           Inl e \<Rightarrow> ([SparseEncode text], Inl (EmbeddingError (''Sparse encoding error: '' @ e)))
         | Inr sv \<Rightarrow>
             ([SparseEncode text, RepoSearch (Inr sv) filters top_k SPARSE],
              repository_search_by_vector_and_filters c (Inr sv) filters top_k SPARSE))
      else if search_type = HYBRID then
        (case encode_both c text of
           (calls, Inl e) \<Rightarrow> (calls, Inl e)
         | (calls, Inr (dv, sv)) \<Rightarrow>
             (calls @ [RepoHybrid dv sv filters top_k],
              repository_search_hybrid_by_vectors_and_filters c dv sv filters top_k))
      else ([], Inl (ValidationError (''Unsupported search type: '' @ search_type))))"

section \<open>Concrete collaborators\<close>

text \<open>
  Working stubs on which the theorems are instantiated: the dense encoder fails on the text
  \<open>fail dense\<close>, the sparse one on \<open>fail sparse\<close>, and the store holds two entities:
  \<open>e1\<close>, and \<open>e3\<close>, whose indexed text is the empty string.
\<close>

definition example_competency :: DomainCompetency where
  "example_competency =
     \<lparr>code = ''C1'', lang = EN, type = OCCUPATION, provider = ESCO, title = ''Baker'',
      url = None, category = None, description = None, keywords_field = None,
      indexed_text = Some ''old text'', metadata = None\<rparr>"

definition example_entity :: Entity where
  "example_entity =
     \<lparr>entity_identifier = ''e1'', competency = example_competency,
      dense_vector = Some \<lparr>dense_values = [1, 2]\<rparr>,
      sparse_vector = Some \<lparr>indices = [7], sparse_values = [1]\<rparr>\<rparr>"

definition example_blank_entity :: Entity where
  "example_blank_entity =
     \<lparr>entity_identifier = ''e3'',
      competency = example_competency\<lparr>indexed_text := Some ''''\<rparr>,
      dense_vector = Some \<lparr>dense_values = [3]\<rparr>,
      sparse_vector = Some \<lparr>indices = [4], sparse_values = [1]\<rparr>\<rparr>"

definition example_collaborators :: collaborators where
  "example_collaborators =
     \<lparr>dense_embedding_service_encode =
        (\<lambda>t. if t = ''fail dense'' then Inl ''dense model down''
             else Inr \<lparr>dense_values = [real (length t)]\<rparr>),
      sparse_embedding_service_encode =
        (\<lambda>t. if t = ''fail sparse'' then Inl ''sparse model down''
             else Inr \<lparr>indices = [int (length t)], sparse_values = [1]\<rparr>),
      repository_create_entity =
        (\<lambda>m. Inr \<lparr>entity_identifier = ''new'', competency = create_competency m,
                    dense_vector = None, sparse_vector = None\<rparr>),
      repository_get_entity =
        (\<lambda>i. if i = ''e1'' then Inr (Some example_entity)
             else if i = ''e3'' then Inr (Some example_blank_entity) else Inr None),
      repository_update_entity =
        (\<lambda>m. Inr \<lparr>entity_identifier = update_identifier m,
                    competency = update_competency m,
                    dense_vector = None, sparse_vector = None\<rparr>),
      repository_delete_entity = (\<lambda>i. Inr ()),
      repository_search_by_vector_and_filters = (\<lambda>v fs n name. Inr []),
      repository_search_hybrid_by_vectors_and_filters = (\<lambda>dv sv fs n. Inr [])\<rparr>"

section \<open>Filter translation of the Qdrant repository\<close>

















section \<open>Indexing strategies of the data importer\<close>

text \<open>\<open>sep.join(parts)\<close>.\<close>

fun join :: "string \<Rightarrow> string list \<Rightarrow> string" where
  "join sep [] = []"
| "join sep [x] = x"
| "join sep (x # y # ys) = x @ sep @ join sep (y # ys)"

text \<open>
  \<open>IndexingField\<close> is a \<open>StrEnum\<close>; the strategies are built from plain strings
  (\<open>get_indexing_strat\<close>), so a field is a \<open>string\<close> and the members are these four.
\<close>

definition TITLE :: string where "TITLE = ''title''"
definition DESCRIPTION :: string where "DESCRIPTION = ''description''"
definition CATEGORY :: string where "CATEGORY = ''category''"
definition KEYWORDS :: string where "KEYWORDS = ''keywords''"

datatype config_error = ValueError "string set" | KeyError string

record FieldDuplicationStrategy =
  duplication_fields :: "string list"

record FieldCombinationStrategy =
  combination_fields :: "string list"

text \<open>The dictionary \<open>_field_extractors\<close> of \<open>FieldDuplicationStrategy\<close>.\<close>

definition field_extractors :: "(string \<times> (Competency \<Rightarrow> string list)) list" where
  "field_extractors =
     [(TITLE, \<lambda>comp. [title comp]),
      (DESCRIPTION,
       \<lambda>comp. case description comp of
                 None \<Rightarrow> [] | Some d \<Rightarrow> if d \<noteq> [] then [d] else []),
      (CATEGORY,
       \<lambda>comp. case category comp of
                 None \<Rightarrow> [] | Some d \<Rightarrow> if d \<noteq> [] then [d] else []),
      (KEYWORDS, \<lambda>comp. case keywords_field comp of None \<Rightarrow> [] | Some ks \<Rightarrow> ks)]"

text \<open>
  \<open>FieldDuplicationStrategy.__init__\<close>: the requested fields that are no key of the
  dictionary are collected, and a non-empty collection raises \<open>ValueError\<close>.
\<close>

definition FieldDuplicationStrategy_init ::
  "string list \<Rightarrow> config_error + FieldDuplicationStrategy" where
  "FieldDuplicationStrategy_init flds =
     (let missing = set flds - set (map fst field_extractors) in
      if missing \<noteq> {} then Inl (ValueError missing)
      else Inr \<lparr>duplication_fields = flds\<rparr>)"

fun duplication_expand ::
  "string list \<Rightarrow> Competency \<Rightarrow> config_error + Competency list" where
  "duplication_expand [] cpt = Inr []"
| "duplication_expand (f # fs) cpt =
     (case map_of field_extractors f of
        None \<Rightarrow> Inl (KeyError f)
      | Some extractor \<Rightarrow>
          (case duplication_expand fs cpt of
             Inl e \<Rightarrow> Inl e
           | Inr rest \<Rightarrow>
               Inr (map (\<lambda>v. cpt\<lparr>indexed_text := Some v\<rparr>)
                      (filter (\<lambda>v. strip v \<noteq> []) (extractor cpt)) @ rest)))"

definition FieldDuplicationStrategy_expand_competency ::
  "FieldDuplicationStrategy \<Rightarrow> Competency \<Rightarrow> config_error + Competency list" where
  "FieldDuplicationStrategy_expand_competency self cpt =
     duplication_expand (duplication_fields self) cpt"

text \<open>\<open>FieldCombinationStrategy.__init__\<close> stores the fields and checks nothing.\<close>

definition FieldCombinationStrategy_init ::
  "string list \<Rightarrow> config_error + FieldCombinationStrategy" where
  "FieldCombinationStrategy_init flds = Inr \<lparr>combination_fields = flds\<rparr>"

text \<open>
  \<open>getattr(competency, field, "")\<close> on the declared fields of \<open>Competency\<close>: a string, a
  list of strings or \<open>None\<close>; the enumerations are stored by value
  (\<open>use_enum_values\<close>). Any other name gets the default, the empty string; the attributes
  that pydantic itself gives a model are not part of this model.
\<close>

datatype attr_value = AttrStr string | AttrList "string list" | AttrNone

definition Language_value :: "Language \<Rightarrow> string" where
  "Language_value l = (case l of EN \<Rightarrow> ''en'' | FR \<Rightarrow> ''fr'')"

definition CompetencyType_value :: "CompetencyType \<Rightarrow> string" where
  "CompetencyType_value t =
     (case t of OCCUPATION \<Rightarrow> ''occupation'' | SKILL \<Rightarrow> ''skill''
      | CERTIFICATION \<Rightarrow> ''certification'')"

definition Provider_value :: "Provider \<Rightarrow> string" where
  "Provider_value p =
     (case p of ESCO \<Rightarrow> ''esco'' | ROME \<Rightarrow> ''rome'' | FORMA \<Rightarrow> ''forma''
      | FORMA14 \<Rightarrow> ''forma14'')"

definition optional_str :: "string option \<Rightarrow> attr_value" where
  "optional_str v = (case v of None \<Rightarrow> AttrNone | Some s \<Rightarrow> AttrStr s)"

definition getattr :: "Competency \<Rightarrow> string \<Rightarrow> attr_value" where
  "getattr cpt f =
     (if f = ''code'' then AttrStr (code cpt)
      else if f = ''lang'' then AttrStr (Language_value (lang cpt))
      else if f = ''type'' then AttrStr (CompetencyType_value (type cpt))
      else if f = ''provider'' then AttrStr (Provider_value (provider cpt))
      else if f = ''title'' then AttrStr (title cpt)
      else if f = ''url'' then optional_str (url cpt)
      else if f = ''category'' then optional_str (category cpt)
      else if f = ''description'' then optional_str (description cpt)
      else if f = ''keywords'' then
        (case keywords_field cpt of None \<Rightarrow> AttrNone | Some ks \<Rightarrow> AttrList ks)
      else if f = ''indexed_text'' then optional_str (indexed_text cpt)
      else AttrStr [])"

text \<open>
  The loop of \<open>FieldCombinationStrategy.expand_competency\<close>: what one field appends to
  \<open>parts\<close>. A list appends its non-empty items joined by a comma; a non-empty string
  appends itself, after its copy without the final period when it ends with one.
\<close>

definition combination_parts :: "Competency \<Rightarrow> string \<Rightarrow> string list" where
  "combination_parts cpt f =
     (case getattr cpt f of
        AttrList v \<Rightarrow> [join '', '' (filter (\<lambda>item. item \<noteq> []) v)]
      | AttrStr v \<Rightarrow>
          if v \<noteq> [] then (if last v = CHR ''.'' then [butlast v] else []) @ [v]
          else []
      | AttrNone \<Rightarrow> [])"

definition FieldCombinationStrategy_expand_competency ::
  "FieldCombinationStrategy \<Rightarrow> Competency \<Rightarrow> Competency list" where
  "FieldCombinationStrategy_expand_competency self cpt =
     (let parts = concat (map (combination_parts cpt) (combination_fields self));
          text = strip (join ''. '' parts)
      in [cpt\<lparr>indexed_text := Some text\<rparr>])"

text \<open>A canonical record, as a mapper would produce it.\<close>

definition example_record :: Competency where
  "example_record =
     \<lparr>code = ''2512'', lang = EN, type = OCCUPATION, provider = ESCO, title = ''Baker'',
      url = None, category = Some ''Food'', description = Some ''Bakes bread.'',
      keywords_field = Some [''Bread maker'', ''Pastry chef''],
      indexed_text = Some ''Baker''\<rparr>"

section \<open>More of Python's string methods\<close>

text \<open>
  The case conversions of Python on the code points of the model. \<open>str.lower()\<close> moves
  \<open>A\<close> to \<open>Z\<close> and U+00C0 to U+00DE, less the multiplication sign U+00D7, up by 32 and
  leaves the rest. The title case that \<open>str.capitalize()\<close> gives the first character
  moves \<open>a\<close> to \<open>z\<close> and U+00E0 to U+00FE, less the division sign U+00F7, down by 32,
  turns U+00DF, the sharp s, into \<open>Ss\<close>, and leaves the rest. \<open>capitalize\<close> puts the
  first character in title case and the others in lower case.
\<close>

definition lower_char :: "char \<Rightarrow> char" where
  "lower_char c =
     (if (65 \<le> (of_char c :: nat) \<and> (of_char c :: nat) \<le> 90)
         \<or> (192 \<le> (of_char c :: nat) \<and> (of_char c :: nat) \<le> 222
            \<and> (of_char c :: nat) \<noteq> 215)
      then char_of ((of_char c :: nat) + 32) else c)"

definition title_char :: "char \<Rightarrow> string" where
  "title_char c =
     (if (97 \<le> (of_char c :: nat) \<and> (of_char c :: nat) \<le> 122)
         \<or> (224 \<le> (of_char c :: nat) \<and> (of_char c :: nat) \<le> 254
            \<and> (of_char c :: nat) \<noteq> 247)
      then [char_of ((of_char c :: nat) - 32)]
      else if (of_char c :: nat) = 223 then ''Ss''
      else [c])"


fun capitalize :: "string \<Rightarrow> string" where
  "capitalize [] = []"
| "capitalize (c # cs) = title_char c @ map lower_char cs"


definition startswith :: "string \<Rightarrow> string \<Rightarrow> bool" where
  "startswith s p = (take (length p) s = p)"

text \<open>\<open>sub in s\<close>.\<close>

fun contains :: "string \<Rightarrow> string \<Rightarrow> bool" where
  "contains [] sub = (sub = [])"
| "contains (c # cs) sub = (startswith (c # cs) sub \<or> contains cs sub)"

text \<open>
  \<open>s.split(sep)\<close> for a non-empty separator: the pieces between the occurrences of
  \<open>sep\<close>, found from the left and not overlapping. \<open>acc\<close> is the current piece, reversed.
\<close>

function split_from :: "string \<Rightarrow> string \<Rightarrow> string \<Rightarrow> string list" where
  "split_from sep acc [] = [rev acc]"
| "split_from sep acc (c # cs) =
     (if sep \<noteq> [] \<and> startswith (c # cs) sep
      then rev acc # split_from sep [] (drop (length sep) (c # cs))
      else split_from sep (c # acc) cs)"
  by pat_completeness auto
termination
  by (relation "measure (\<lambda>(sep, acc, s). length s)") auto

definition split_on :: "string \<Rightarrow> string \<Rightarrow> string list" where
  "split_on sep s = split_from sep [] s"

text \<open>\<open>s.split()\<close>: the maximal runs of characters that are not whitespace.\<close>

fun words_from :: "string \<Rightarrow> string \<Rightarrow> string list" where
  "words_from acc [] = (if acc = [] then [] else [rev acc])"
| "words_from acc (c # cs) =
     (if isspace c
      then (if acc = [] then words_from [] cs else rev acc # words_from [] cs)
      else words_from (c # acc) cs)"

definition split_whitespace :: "string \<Rightarrow> string list" where
  "split_whitespace s = words_from [] s"

text \<open>\<open>s.replace(old, new)\<close> for a non-empty \<open>old\<close>.\<close>

definition replace :: "string \<Rightarrow> string \<Rightarrow> string \<Rightarrow> string" where
  "replace s old new = join new (split_on old s)"



text \<open>\<open>sorted(set(xs))\<close> on strings, which Python orders by code point.\<close>

definition sorted_set :: "string list \<Rightarrow> string list" where
  "sorted_set xs = sort (remdups xs)"

text \<open>\<open>str(n)\<close> for an integer.\<close>

function str_nat :: "nat \<Rightarrow> string" where
  "str_nat n =
     (if n < 10 then [char_of (48 + n)] else str_nat (n div 10) @ [char_of (48 + n mod 10)])"
  by pat_completeness auto
termination
  by (relation "measure (\<lambda>n. n)") auto

declare str_nat.simps [simp del]

definition str_int :: "int \<Rightarrow> string" where
  "str_int i = (if i < 0 then CHR ''-'' # str_nat (nat (- i)) else str_nat (nat i))"

text \<open>The truth value of an optional string: neither \<open>None\<close> nor empty.\<close>

definition truthy :: "string option \<Rightarrow> bool" where
  "truthy v = (case v of None \<Rightarrow> False | Some s \<Rightarrow> s \<noteq> [])"

section \<open>Provider mappers\<close>

text \<open>
  \<open>Competency(...)\<close> validates its arguments: the only one a mapper can leave invalid is
  the required \<open>code\<close>, which the ESCO mapper may pass as \<open>None\<close>; the model then
  raises \<open>pydantic.ValidationError\<close>.
\<close>

subsection \<open>ESCO\<close>

record EscoMapper =
  esco_provider :: Provider
  esco_competency_type :: CompetencyType
  esco_lang :: Language
  preferred_label :: string
  esco_description :: string
  concept_uri :: string
  alt_labels :: "string option"
  hidden_labels :: "string option"
  esco_code :: "string option"
  esco_category :: "string option"
  broader_concept_pt :: "string option"
  esco_indexed_text :: "string option"

definition clean_esco_appelation :: "string \<Rightarrow> string list" where
  "clean_esco_appelation appelation =
     (if \<not> contains appelation ''/'' then [appelation]
      else
        (case map strip (split_on ''/'' appelation) of
           [p0, p1] \<Rightarrow> [p0, p1]
         | _ \<Rightarrow> [appelation]))"

text \<open>The labels a label-bearing field adds: each piece trimmed, the blank ones dropped.\<close>

definition stripped_labels :: "string list \<Rightarrow> string list" where
  "stripped_labels label_list = map strip (filter (\<lambda>label. strip label \<noteq> []) label_list)"

definition esco_alt_label_list :: "string \<Rightarrow> string list" where
  "esco_alt_label_list labels =
     (if contains labels '' | '' then split_on '' | '' labels
      else if contains labels [CHR 0x0A] then split_on [CHR 0x0A] labels
      else [labels])"

text \<open>
  The list \<open>keywords\<close> of \<open>EscoMapper.to_competency\<close> before its last step: the
  labels of \<open>alt_labels\<close> and \<open>hidden_labels\<close>, then the parts of the title when it
  splits.
\<close>

definition esco_label_keywords :: "EscoMapper \<Rightarrow> string list" where
  "esco_label_keywords self =
     (if truthy (alt_labels self)
      then stripped_labels (esco_alt_label_list (the (alt_labels self))) else [])
     @ (if truthy (hidden_labels self)
        then stripped_labels (split_on [CHR 0x0A] (the (hidden_labels self))) else [])"

definition esco_collected_keywords :: "EscoMapper \<Rightarrow> string \<Rightarrow> string list" where
  "esco_collected_keywords self cleaned_title =
     esco_label_keywords self
     @ (let cleaned_appelations = clean_esco_appelation cleaned_title in
        if length cleaned_appelations > 1 then cleaned_appelations else [])"

definition esco_keywords :: "EscoMapper \<Rightarrow> string list" where
  "esco_keywords self =
     sorted_set
       (map capitalize
          (filter (\<lambda>keyword. strip keyword \<noteq> [])
             (esco_collected_keywords self (capitalize (strip (preferred_label self))))))"

definition EscoMapper_to_competency :: "EscoMapper \<Rightarrow> pydantic_error + Competency" where
  "EscoMapper_to_competency self =
     (let cleaned_title = capitalize (strip (preferred_label self));
          code1 = (if \<not> truthy (esco_code self) \<and> concept_uri self \<noteq> []
                   then Some (strip (concept_uri self)) else esco_code self);
          category1 = (if \<not> truthy (esco_category self) \<and> truthy (broader_concept_pt self)
                       then Some (replace (strip (the (broader_concept_pt self))) '' | '' '', '')
                       else esco_category self)
      in case code1 of
           None \<Rightarrow> Inl PydanticValidationError
         | Some c \<Rightarrow>
             Inr \<lparr>code = c, lang = esco_lang self, type = esco_competency_type self,
                  provider = esco_provider self, title = cleaned_title,
                  url = Some (concept_uri self), category = category1,
                  description = Some (esco_description self),
                  keywords_field = Some (esco_keywords self),
                  indexed_text = (if truthy (esco_indexed_text self) then esco_indexed_text self
                                  else Some cleaned_title)\<rparr>)"

subsection \<open>ROME\<close>


definition clean_rome_appelation :: "string \<Rightarrow> string list" where
  "clean_rome_appelation appelation =
     (if \<not> contains appelation ''/'' then [appelation]
      else
        (case map strip (split_on ''/'' appelation) of
           [gauche, droite] \<Rightarrow>
             (let mots_gauche = split_whitespace gauche;
                  mots_droite = split_whitespace droite
              in if length mots_gauche > length mots_droite then
                   (let nb_mots_prefixe = length mots_gauche - length mots_droite;
                        prefixe = join '' '' (take nb_mots_prefixe mots_gauche)
                    in [strip gauche, strip (prefixe @ '' '' @ droite)])
                 else if length mots_droite > length mots_gauche then
                   (let nb_mots_suffixe = length mots_droite - length mots_gauche;
                        suffixe = join '' ''
                          (drop (length mots_droite - nb_mots_suffixe) mots_droite)
                    in [strip (gauche @ '' '' @ suffixe), strip droite])
                 else [strip gauche, strip droite])
         | _ \<Rightarrow> [appelation]))"



subsection \<open>FORMA\<close>

record FormaMapper =
  forma_provider :: Provider
  forma_competency_type :: CompetencyType
  forma_lang :: Language
  forma_code :: int
  forma_title :: string
  forma_category :: string
  NSF :: "string option"
  forma_semantic_field :: "string option"
  forma_synonym :: "string option"
  forma_synonym_job :: "string option"
  forma_specific_terms :: "string option"
  forma_associated_terms :: "string option"
  forma_ROME :: "string option"
  forma_explication_note :: "string option"
  forma_application_note :: "string option"
  forma_indexed_text :: "string option"

definition remove_code_from_str :: "string \<Rightarrow> nat \<Rightarrow> string" where
  "remove_code_from_str text code_length_to_remove = drop (code_length_to_remove + 1) text"

text \<open>The terms of a \<open>$\<close>-separated field, blank ones dropped, each trimmed.\<close>

definition dollar_terms :: "string option \<Rightarrow> string list" where
  "dollar_terms v =
     (if \<not> truthy v then []
      else map strip (filter (\<lambda>term. strip term \<noteq> []) (split_on ''$'' (the v))))"

definition forma_synonyms :: "string option \<Rightarrow> string list" where
  "forma_synonyms v =
     (if truthy v then map (\<lambda>s. capitalize (strip s)) (split_on ''$'' (the v)) else [])"

definition forma_cleaned_semantic_field :: "FormaMapper \<Rightarrow> string list" where
  "forma_cleaned_semantic_field self =
     (if truthy (forma_semantic_field self)
      then [capitalize (remove_code_from_str (the (forma_semantic_field self)) 3)] else [])"

definition forma_cleaned_specific_terms :: "FormaMapper \<Rightarrow> string list" where
  "forma_cleaned_specific_terms self =
     map (\<lambda>term. capitalize (remove_code_from_str term 5))
       (dollar_terms (forma_specific_terms self))"

definition forma_cleaned_associated_terms :: "FormaMapper \<Rightarrow> string list" where
  "forma_cleaned_associated_terms self =
     map (\<lambda>term. capitalize (remove_code_from_str term 5))
       (dollar_terms (forma_associated_terms self))"

definition forma_cleaned_rome :: "FormaMapper \<Rightarrow> string list" where
  "forma_cleaned_rome self =
     map (\<lambda>term. remove_code_from_str term 5) (dollar_terms (forma_ROME self))"

text \<open>
  The keywords of \<open>FormaMapper.to_competency\<close>: the union is sorted first, and its
  non-empty members are capitalized afterwards.
\<close>

definition forma_cleaned_keywords :: "FormaMapper \<Rightarrow> string list" where
  "forma_cleaned_keywords self =
     map capitalize
       (filter (\<lambda>keyword. keyword \<noteq> [])
          (sorted_set
             (forma_cleaned_semantic_field self
              @ forma_synonyms (forma_synonym self)
              @ forma_synonyms (forma_synonym_job self)
              @ forma_cleaned_specific_terms self
              @ forma_cleaned_associated_terms self
              @ forma_cleaned_rome self)))"

definition forma_cleaned_description :: "FormaMapper \<Rightarrow> string" where
  "forma_cleaned_description self =
     (let cleaned_nsf = (if truthy (NSF self)
                         then Some (remove_code_from_str (the (NSF self)) 3) else None);
          description_parts =
            (if truthy cleaned_nsf then [the cleaned_nsf] else [])
            @ (if truthy (forma_explication_note self)
               then [the (forma_explication_note self)] else [])
            @ (if truthy (forma_application_note self)
               then [the (forma_application_note self)] else [])
      in join ''. '' (filter (\<lambda>description_part. description_part \<noteq> []) description_parts))"

definition FormaMapper_to_competency :: "FormaMapper \<Rightarrow> Competency" where
  "FormaMapper_to_competency self =
     (let cleaned_title = capitalize (forma_title self) in
      \<lparr>code = str_int (forma_code self), lang = forma_lang self,
       type = forma_competency_type self, provider = forma_provider self,
       title = cleaned_title,
       url = Some (''https://formacode.centre-inffo.fr/spip.php?page=thesaurus&fcd_code=''
                   @ str_int (forma_code self)),
       category = (if forma_category self \<noteq> []
                   then Some (capitalize (remove_code_from_str (forma_category self) 5))
                   else None),
       description = Some (forma_cleaned_description self),
       keywords_field = Some (forma_cleaned_keywords self),
       indexed_text = (if truthy (forma_indexed_text self) then forma_indexed_text self
                       else Some cleaned_title)\<rparr>)"

subsection \<open>FORMA14\<close>














section \<open>Concrete provider records\<close>

definition example_esco :: "string \<Rightarrow> string option \<Rightarrow> EscoMapper" where
  "example_esco label alt =
     \<lparr>esco_provider = ESCO, esco_competency_type = OCCUPATION, esco_lang = EN,
      preferred_label = label, esco_description = ''Bakes bread.'',
      concept_uri = ''http://data.europa.eu/esco/occupation/7512'',
      alt_labels = alt, hidden_labels = None, esco_code = None,
      esco_category = None, broader_concept_pt = None, esco_indexed_text = None\<rparr>"


definition example_forma :: "string option \<Rightarrow> string option \<Rightarrow> FormaMapper" where
  "example_forma syn rome =
     \<lparr>forma_provider = FORMA, forma_competency_type = SKILL, forma_lang = FR,
      forma_code = 7, forma_title = ''boulangerie'', forma_category = ''21500 alimentation'',
      NSF = None, forma_semantic_field = None, forma_synonym = syn,
      forma_synonym_job = None, forma_specific_terms = None,
      forma_associated_terms = None, forma_ROME = rome,
      forma_explication_note = None, forma_application_note = None,
      forma_indexed_text = None\<rparr>"


section \<open>Properties of the string helpers\<close>

lemma strip_Nil_iff: "strip s = [] \<longleftrightarrow> (\<forall>x\<in>set s. isspace x)"
proof
  assume "strip s = []"
  then have all: "\<forall>x\<in>set (dropWhile isspace s). isspace x"
    by (simp add: strip_def dropWhile_eq_Nil_conv)
  have "dropWhile isspace s = []"
  proof (rule ccontr)
    assume ne: "dropWhile isspace s \<noteq> []"
    then have "\<not> isspace (hd (dropWhile isspace s))" by (rule hd_dropWhile)
    moreover have "hd (dropWhile isspace s) \<in> set (dropWhile isspace s)" using ne by simp
    ultimately show False using all by blast
  qed
  then show "\<forall>x\<in>set s. isspace x" by (simp add: dropWhile_eq_Nil_conv)
next
  assume "\<forall>x\<in>set s. isspace x"
  then show "strip s = []" by (auto simp: strip_def dest: set_dropWhileD)
qed

lemma strip_nonempty_arg: "strip s \<noteq> [] \<Longrightarrow> s \<noteq> []"
  by (auto simp: strip_def)

section \<open>Properties of the entity service\<close>

lemma encode_both_ok:
  "dense_embedding_service_encode c t = Inr dv \<Longrightarrow> sparse_embedding_service_encode c t = Inr sv
   \<Longrightarrow> encode_both c t = ([DenseEncode t, SparseEncode t], Inr (dv, sv))"
  by (simp add: encode_both_def)

lemma encode_both_dense_fails:
  "dense_embedding_service_encode c t = Inl e
   \<Longrightarrow> encode_both c t = ([DenseEncode t], Inl (EmbeddingError (''Encoding error: '' @ e)))"
  by (simp add: encode_both_def)

lemma encode_both_sparse_fails:
  "dense_embedding_service_encode c t = Inr dv \<Longrightarrow> sparse_embedding_service_encode c t = Inl e
   \<Longrightarrow> encode_both c t =
        ([DenseEncode t, SparseEncode t], Inl (EmbeddingError (''Encoding error: '' @ e)))"
  by (simp add: encode_both_def)

text \<open>
  Claim C4. \<open>create_entity\<close> on an absent, empty or whitespace-only text raises
  \<open>ValidationError\<close> and calls no collaborator. On any other text it encodes the trimmed
  text with the dense service and then the sparse one; if the dense encoding raises, or the
  sparse one after it, the failure is re-raised as \<open>EmbeddingError\<close> and the repository
  is not called; when both return, the repository's \<open>create_entity\<close> is called once,
  with the competency and the two vectors, and its result is returned.
\<close>

theorem create_entity_flow:
  "((tx = None \<or> (\<forall>x\<in>set (the tx). isspace x)) \<longrightarrow>
      create_entity c cpt tx = ([], Inl (ValidationError ''Text cannot be empty.''))) \<and>
   (\<forall>s e. tx = Some s \<and> strip s \<noteq> [] \<and>
      dense_embedding_service_encode c (strip s) = Inl e \<longrightarrow>
      create_entity c cpt tx =
        ([DenseEncode (strip s)], Inl (EmbeddingError (''Encoding error: '' @ e)))) \<and>
   (\<forall>s dv e. tx = Some s \<and> strip s \<noteq> [] \<and>
      dense_embedding_service_encode c (strip s) = Inr dv \<and>
      sparse_embedding_service_encode c (strip s) = Inl e \<longrightarrow>
      create_entity c cpt tx =
        ([DenseEncode (strip s), SparseEncode (strip s)],
         Inl (EmbeddingError (''Encoding error: '' @ e)))) \<and>
   (\<forall>s dv sv. tx = Some s \<and> strip s \<noteq> [] \<and>
      dense_embedding_service_encode c (strip s) = Inr dv \<and>
      sparse_embedding_service_encode c (strip s) = Inr sv \<longrightarrow>
      create_entity c cpt tx =
        ([DenseEncode (strip s), SparseEncode (strip s),
          RepoCreate \<lparr>create_competency = cpt, create_dense_vector = dv,
                      create_sparse_vector = sv\<rparr>],
         repository_create_entity c
           \<lparr>create_competency = cpt, create_dense_vector = dv, create_sparse_vector = sv\<rparr>))"
proof (intro conjI impI allI)
  assume "tx = None \<or> (\<forall>x\<in>set (the tx). isspace x)"
  then show "create_entity c cpt tx = ([], Inl (ValidationError ''Text cannot be empty.''))"
    by (cases "tx") (auto simp: create_entity_def strip_Nil_iff)
next
  fix s e
  assume "tx = Some s \<and> strip s \<noteq> [] \<and> dense_embedding_service_encode c (strip s) = Inl e"
  then show "create_entity c cpt tx =
        ([DenseEncode (strip s)], Inl (EmbeddingError (''Encoding error: '' @ e)))"
    by (simp add: create_entity_def Let_def encode_both_dense_fails strip_nonempty_arg)
next
  fix s dv e
  assume "tx = Some s \<and> strip s \<noteq> [] \<and>
      dense_embedding_service_encode c (strip s) = Inr dv \<and>
      sparse_embedding_service_encode c (strip s) = Inl e"
  then show "create_entity c cpt tx =
        ([DenseEncode (strip s), SparseEncode (strip s)],
         Inl (EmbeddingError (''Encoding error: '' @ e)))"
    by (simp add: create_entity_def Let_def encode_both_sparse_fails strip_nonempty_arg)
next
  fix s dv sv
  assume "tx = Some s \<and> strip s \<noteq> [] \<and>
      dense_embedding_service_encode c (strip s) = Inr dv \<and>
      sparse_embedding_service_encode c (strip s) = Inr sv"
  then show "create_entity c cpt tx =
        ([DenseEncode (strip s), SparseEncode (strip s),
          RepoCreate \<lparr>create_competency = cpt, create_dense_vector = dv,
                      create_sparse_vector = sv\<rparr>],
         repository_create_entity c
           \<lparr>create_competency = cpt, create_dense_vector = dv, create_sparse_vector = sv\<rparr>)"
    by (simp add: create_entity_def Let_def encode_both_ok strip_nonempty_arg)
qed

theorem create_entity_flow_witness:
  "create_entity example_collaborators example_competency (Some ''  '') =
     ([], Inl (ValidationError ''Text cannot be empty.'')) \<and>
   create_entity example_collaborators example_competency (Some '' fail sparse '') =
     ([DenseEncode ''fail sparse'', SparseEncode ''fail sparse''],
      Inl (EmbeddingError ''Encoding error: sparse model down'')) \<and>
   create_entity example_collaborators example_competency (Some '' valid text '') =
     ([DenseEncode ''valid text'', SparseEncode ''valid text'',
       RepoCreate \<lparr>create_competency = example_competency,
                   create_dense_vector = \<lparr>dense_values = [10]\<rparr>,
                   create_sparse_vector = \<lparr>indices = [10], sparse_values = [1]\<rparr>\<rparr>],
      Inr \<lparr>entity_identifier = ''new'', competency = example_competency,
           dense_vector = None, sparse_vector = None\<rparr>)"
  using create_entity_flow [where tx = "Some ''  ''" and c = example_collaborators
      and cpt = example_competency]
    create_entity_flow [where tx = "Some '' fail sparse ''" and c = example_collaborators
      and cpt = example_competency]
    create_entity_flow [where tx = "Some '' valid text ''" and c = example_collaborators
      and cpt = example_competency]
  by (simp add: example_collaborators_def strip_def isspace_def)

lemma get_entity_found:
  "repository_get_entity c ident = Inr (Some ent) \<Longrightarrow> get_entity c ident = ([RepoGet ident], Inr ent)"
  by (simp add: get_entity_def)

lemma get_entity_absent:
  "repository_get_entity c ident = Inr None \<Longrightarrow>
   get_entity c ident =
     ([RepoGet ident], Inl (EntityNotFoundError (''Entity '' @ ident @ '' not found'')))"
  by (simp add: get_entity_def)

text \<open>
  Claim C2. When the repository holds no entity under the identifier, \<open>update_entity\<close>
  raises \<open>EntityNotFoundError\<close> after the lookup and does nothing else. For a stored
  entity: if the text is \<open>None\<close> or equals the stored \<open>indexed_text\<close>, no encoder is
  called and the repository update receives the entity's own dense and sparse vectors;
  otherwise the text is trimmed, an empty result raises \<open>ValidationError\<close>, and else the
  dense and the sparse encoder are each called once on the trimmed text and the repository
  update receives the fresh vectors. An encoder that raises gives \<open>EmbeddingError\<close> and
  no repository update.
\<close>

theorem update_entity_vector_reuse:
  "(repository_get_entity c ident = Inr None \<longrightarrow>
      update_entity c ident cpt tx =
        ([RepoGet ident], Inl (EntityNotFoundError (''Entity '' @ ident @ '' not found'')))) \<and>
   (repository_get_entity c ident = Inr (Some ent) \<longrightarrow>
      ((tx = None \<or> tx = indexed_text (competency ent)) \<longrightarrow>
         update_entity c ident cpt tx =
           ([RepoGet ident,
             RepoUpdate \<lparr>update_identifier = ident, update_competency = cpt,
                         update_dense_vector = dense_vector ent,
                         update_sparse_vector = sparse_vector ent\<rparr>],
            repository_update_entity c
              \<lparr>update_identifier = ident, update_competency = cpt,
               update_dense_vector = dense_vector ent,
               update_sparse_vector = sparse_vector ent\<rparr>)) \<and>
      (\<forall>s. tx = Some s \<and> tx \<noteq> indexed_text (competency ent) \<longrightarrow>
         (strip s = [] \<longrightarrow>
            update_entity c ident cpt tx =
              ([RepoGet ident], Inl (ValidationError ''Text cannot be empty.''))) \<and>
         (strip s \<noteq> [] \<longrightarrow>
            (\<forall>dv sv. dense_embedding_service_encode c (strip s) = Inr dv \<and>
                sparse_embedding_service_encode c (strip s) = Inr sv \<longrightarrow>
               update_entity c ident cpt tx =
                 ([RepoGet ident, DenseEncode (strip s), SparseEncode (strip s),
                   RepoUpdate \<lparr>update_identifier = ident, update_competency = cpt,
                               update_dense_vector = Some dv,
                               update_sparse_vector = Some sv\<rparr>],
                  repository_update_entity c
                    \<lparr>update_identifier = ident, update_competency = cpt,
                     update_dense_vector = Some dv, update_sparse_vector = Some sv\<rparr>)) \<and>
            (\<forall>e. dense_embedding_service_encode c (strip s) = Inl e \<longrightarrow>
               update_entity c ident cpt tx =
                 ([RepoGet ident, DenseEncode (strip s)],
                  Inl (EmbeddingError (''Encoding error: '' @ e)))) \<and>
            (\<forall>dv e. dense_embedding_service_encode c (strip s) = Inr dv \<and>
                sparse_embedding_service_encode c (strip s) = Inl e \<longrightarrow>
               update_entity c ident cpt tx =
                 ([RepoGet ident, DenseEncode (strip s), SparseEncode (strip s)],
                  Inl (EmbeddingError (''Encoding error: '' @ e)))))))"
  by (auto simp: update_entity_def Let_def get_entity_found get_entity_absent
      encode_both_ok encode_both_dense_fails encode_both_sparse_fails)

theorem update_entity_vector_reuse_witness:
  "update_entity example_collaborators ''e1'' example_competency None =
     ([RepoGet ''e1'',
       RepoUpdate \<lparr>update_identifier = ''e1'', update_competency = example_competency,
                   update_dense_vector = Some \<lparr>dense_values = [1, 2]\<rparr>,
                   update_sparse_vector = Some \<lparr>indices = [7], sparse_values = [1]\<rparr>\<rparr>],
      Inr \<lparr>entity_identifier = ''e1'', competency = example_competency,
           dense_vector = None, sparse_vector = None\<rparr>) \<and>
   update_entity example_collaborators ''e1'' example_competency (Some ''old text'') =
     ([RepoGet ''e1'',
       RepoUpdate \<lparr>update_identifier = ''e1'', update_competency = example_competency,
                   update_dense_vector = Some \<lparr>dense_values = [1, 2]\<rparr>,
                   update_sparse_vector = Some \<lparr>indices = [7], sparse_values = [1]\<rparr>\<rparr>],
      Inr \<lparr>entity_identifier = ''e1'', competency = example_competency,
           dense_vector = None, sparse_vector = None\<rparr>) \<and>
   update_entity example_collaborators ''e1'' example_competency (Some ''new text!'') =
     ([RepoGet ''e1'', DenseEncode ''new text!'', SparseEncode ''new text!'',
       RepoUpdate \<lparr>update_identifier = ''e1'', update_competency = example_competency,
                   update_dense_vector = Some \<lparr>dense_values = [9]\<rparr>,
                   update_sparse_vector = Some \<lparr>indices = [9], sparse_values = [1]\<rparr>\<rparr>],
      Inr \<lparr>entity_identifier = ''e1'', competency = example_competency,
           dense_vector = None, sparse_vector = None\<rparr>) \<and>
   update_entity example_collaborators ''e1'' example_competency (Some '' '') =
     ([RepoGet ''e1''], Inl (ValidationError ''Text cannot be empty.'')) \<and>
   update_entity example_collaborators ''e2'' example_competency None =
     ([RepoGet ''e2''], Inl (EntityNotFoundError ''Entity e2 not found''))"
  using update_entity_vector_reuse [where c = example_collaborators and ident = "''e1''"
      and cpt = example_competency and tx = None and ent = example_entity]
    update_entity_vector_reuse [where c = example_collaborators and ident = "''e1''"
      and cpt = example_competency and tx = "Some ''old text''" and ent = example_entity]
    update_entity_vector_reuse [where c = example_collaborators and ident = "''e1''"
      and cpt = example_competency and tx = "Some ''new text!''" and ent = example_entity]
    update_entity_vector_reuse [where c = example_collaborators and ident = "''e1''"
      and cpt = example_competency and tx = "Some '' ''" and ent = example_entity]
    update_entity_vector_reuse [where c = example_collaborators and ident = "''e2''"
      and cpt = example_competency and tx = None]
  by (simp add: example_collaborators_def example_entity_def example_competency_def
      strip_def isspace_def)

text \<open>
  Claim C10, as stated, fails for a stored entity whose indexed text is empty: the text
  \<open>" "\<close> differs from it only by surrounding whitespace, and \<open>update_entity\<close> raises
  \<open>ValidationError\<close> without encoding anything.
\<close>

theorem update_entity_blank_text_counterexample:
  "repository_get_entity example_collaborators ''e3'' = Inr (Some example_blank_entity) \<and>
   indexed_text (competency example_blank_entity) = Some '''' \<and>
   '' '' \<noteq> '''' \<and> strip '' '' = strip '''' \<and>
   update_entity example_collaborators ''e3'' example_competency (Some '' '') =
     ([RepoGet ''e3''], Inl (ValidationError ''Text cannot be empty.''))"
  by (simp add: update_entity_def get_entity_def example_collaborators_def
      example_blank_entity_def example_competency_def strip_def isspace_def)

text \<open>
  Claim C10, amended. The reuse test is string equality with the stored \<open>indexed_text\<close>,
  made before trimming: a text that differs from the stored one only by surrounding
  whitespace never reuses the stored vectors. If it is empty after trimming,
  \<open>ValidationError\<close> is raised after the lookup; otherwise both encoders are called on
  the trimmed text and, when they return, the fresh vectors are stored.
\<close>

theorem update_entity_whitespace_variant:
  assumes "repository_get_entity c ident = Inr (Some ent)"
    and "indexed_text (competency ent) = Some s"
    and "tx \<noteq> s" and "strip tx = strip s"
  shows "(strip tx = [] \<longrightarrow>
           update_entity c ident cpt (Some tx) =
             ([RepoGet ident], Inl (ValidationError ''Text cannot be empty.''))) \<and>
         (strip tx \<noteq> [] \<longrightarrow>
           (\<forall>dv sv. dense_embedding_service_encode c (strip tx) = Inr dv \<and>
               sparse_embedding_service_encode c (strip tx) = Inr sv \<longrightarrow>
              update_entity c ident cpt (Some tx) =
                ([RepoGet ident, DenseEncode (strip tx), SparseEncode (strip tx),
                  RepoUpdate \<lparr>update_identifier = ident, update_competency = cpt,
                              update_dense_vector = Some dv,
                              update_sparse_vector = Some sv\<rparr>],
                 repository_update_entity c
                   \<lparr>update_identifier = ident, update_competency = cpt,
                    update_dense_vector = Some dv, update_sparse_vector = Some sv\<rparr>)))"
  using assms
  by (auto simp: update_entity_def Let_def get_entity_found encode_both_ok)

theorem update_entity_whitespace_variant_witness:
  "update_entity example_collaborators ''e1'' example_competency (Some '' old text '') =
     ([RepoGet ''e1'', DenseEncode ''old text'', SparseEncode ''old text'',
       RepoUpdate \<lparr>update_identifier = ''e1'', update_competency = example_competency,
                   update_dense_vector = Some \<lparr>dense_values = [8]\<rparr>,
                   update_sparse_vector = Some \<lparr>indices = [8], sparse_values = [1]\<rparr>\<rparr>],
      Inr \<lparr>entity_identifier = ''e1'', competency = example_competency,
           dense_vector = None, sparse_vector = None\<rparr>)"
  using update_entity_whitespace_variant [where c = example_collaborators and ident = "''e1''"
      and cpt = example_competency and tx = "'' old text ''" and ent = example_entity
      and s = "''old text''"]
  by (simp add: example_collaborators_def example_entity_def example_competency_def
      strip_def isspace_def)

text \<open>
  Claim C1. \<open>search_by_text_and_filters_with_type\<close> on a text that is empty after
  trimming raises \<open>ValidationError\<close> with no call made. Otherwise \<open>SEMANTIC\<close> calls the
  dense encoder alone and then the single-vector search with \<open>DENSE\<close>; \<open>SPARSE\<close> calls
  the sparse encoder alone and then the single-vector search with \<open>SPARSE\<close>; \<open>HYBRID\<close>
  calls both encoders once each and then the hybrid search once, with both vectors; any
  other search type raises \<open>ValidationError\<close> with no call made. In each branch an
  encoder that raises gives \<open>EmbeddingError\<close> and no repository call.
\<close>

theorem search_dispatch:
  "(strip tx = [] \<longrightarrow>
      search_by_text_and_filters_with_type c tx fs n st =
        ([], Inl (ValidationError ''Searched text cannot be empty.''))) \<and>
   (strip tx \<noteq> [] \<and> st = SEMANTIC \<longrightarrow>
      (\<forall>dv. dense_embedding_service_encode c (strip tx) = Inr dv \<longrightarrow>
         search_by_text_and_filters_with_type c tx fs n st =
           ([DenseEncode (strip tx), RepoSearch (Inl dv) fs n DENSE],
            repository_search_by_vector_and_filters c (Inl dv) fs n DENSE)) \<and>
      (\<forall>e. dense_embedding_service_encode c (strip tx) = Inl e \<longrightarrow>
         search_by_text_and_filters_with_type c tx fs n st =
           ([DenseEncode (strip tx)], Inl (EmbeddingError (''Dense encoding error: '' @ e))))) \<and>
   (strip tx \<noteq> [] \<and> st = SPARSE_SEARCH \<longrightarrow>
      (\<forall>sv. sparse_embedding_service_encode c (strip tx) = Inr sv \<longrightarrow>
         search_by_text_and_filters_with_type c tx fs n st =
           ([SparseEncode (strip tx), RepoSearch (Inr sv) fs n SPARSE],
            repository_search_by_vector_and_filters c (Inr sv) fs n SPARSE)) \<and>
      (\<forall>e. sparse_embedding_service_encode c (strip tx) = Inl e \<longrightarrow>
         search_by_text_and_filters_with_type c tx fs n st =
           ([SparseEncode (strip tx)], Inl (EmbeddingError (''Sparse encoding error: '' @ e))))) \<and>
   (strip tx \<noteq> [] \<and> st = HYBRID \<longrightarrow>
      (\<forall>dv sv. dense_embedding_service_encode c (strip tx) = Inr dv \<and>
          sparse_embedding_service_encode c (strip tx) = Inr sv \<longrightarrow>
         search_by_text_and_filters_with_type c tx fs n st =
           ([DenseEncode (strip tx), SparseEncode (strip tx), RepoHybrid dv sv fs n],
            repository_search_hybrid_by_vectors_and_filters c dv sv fs n)) \<and>
      (\<forall>e. dense_embedding_service_encode c (strip tx) = Inl e \<longrightarrow>
         search_by_text_and_filters_with_type c tx fs n st =
           ([DenseEncode (strip tx)], Inl (EmbeddingError (''Encoding error: '' @ e)))) \<and>
      (\<forall>dv e. dense_embedding_service_encode c (strip tx) = Inr dv \<and>
          sparse_embedding_service_encode c (strip tx) = Inl e \<longrightarrow>
         search_by_text_and_filters_with_type c tx fs n st =
           ([DenseEncode (strip tx), SparseEncode (strip tx)],
            Inl (EmbeddingError (''Encoding error: '' @ e))))) \<and>
   (strip tx \<noteq> [] \<and> st \<noteq> SEMANTIC \<and> st \<noteq> SPARSE_SEARCH \<and> st \<noteq> HYBRID \<longrightarrow>
      search_by_text_and_filters_with_type c tx fs n st =
        ([], Inl (ValidationError (''Unsupported search type: '' @ st))))"
proof -
  have distinct: "SEMANTIC \<noteq> SPARSE_SEARCH" "SEMANTIC \<noteq> HYBRID" "SPARSE_SEARCH \<noteq> HYBRID"
    "HYBRID \<noteq> SEMANTIC" "HYBRID \<noteq> SPARSE_SEARCH" "SPARSE_SEARCH \<noteq> SEMANTIC"
    by (simp_all add: SEMANTIC_def SPARSE_SEARCH_def HYBRID_def)
  show ?thesis
    by (simp add: search_by_text_and_filters_with_type_def Let_def distinct
        encode_both_ok encode_both_dense_fails encode_both_sparse_fails)
qed

theorem search_dispatch_witness:
  "search_by_text_and_filters_with_type example_collaborators '' baker '' [] 10 SEMANTIC =
     ([DenseEncode ''baker'', RepoSearch (Inl \<lparr>dense_values = [5]\<rparr>) [] 10 DENSE], Inr []) \<and>
   search_by_text_and_filters_with_type example_collaborators '' baker '' [] 10 SPARSE_SEARCH =
     ([SparseEncode ''baker'',
       RepoSearch (Inr \<lparr>indices = [5], sparse_values = [1]\<rparr>) [] 10 SPARSE], Inr []) \<and>
   search_by_text_and_filters_with_type example_collaborators '' baker '' [] 10 HYBRID =
     ([DenseEncode ''baker'', SparseEncode ''baker'',
       RepoHybrid \<lparr>dense_values = [5]\<rparr> \<lparr>indices = [5], sparse_values = [1]\<rparr> [] 10],
      Inr []) \<and>
   search_by_text_and_filters_with_type example_collaborators '' baker '' [] 10 ''fuzzy'' =
     ([], Inl (ValidationError ''Unsupported search type: fuzzy'')) \<and>
   search_by_text_and_filters_with_type example_collaborators ''  '' [] 10 HYBRID =
     ([], Inl (ValidationError ''Searched text cannot be empty.''))"
  using search_dispatch [where tx = "'' baker ''" and c = example_collaborators and fs = "[]"
      and n = 10 and st = SEMANTIC]
    search_dispatch [where tx = "'' baker ''" and c = example_collaborators and fs = "[]"
      and n = 10 and st = SPARSE_SEARCH]
    search_dispatch [where tx = "'' baker ''" and c = example_collaborators and fs = "[]"
      and n = 10 and st = HYBRID]
    search_dispatch [where tx = "'' baker ''" and c = example_collaborators and fs = "[]"
      and n = 10 and st = "''fuzzy''"]
    search_dispatch [where tx = "''  ''" and c = example_collaborators and fs = "[]"
      and n = 10 and st = HYBRID]
  by (simp add: example_collaborators_def strip_def isspace_def SEMANTIC_def SPARSE_SEARCH_def
      HYBRID_def)

section \<open>Properties of the filter translation\<close>








section \<open>Properties of the indexing strategies\<close>

lemma field_extractor_keys:
  "set (map fst field_extractors) = {TITLE, DESCRIPTION, CATEGORY, KEYWORDS}"
  by (auto simp: field_extractors_def)

lemma FieldCombinationStrategy_expand_single:
  "\<exists>t. FieldCombinationStrategy_expand_competency self cpt = [cpt\<lparr>indexed_text := Some t\<rparr>]"
  unfolding FieldCombinationStrategy_expand_competency_def Let_def
  by (rule exI) (rule refl)

text \<open>
  Claim C6 asks that a scalar field contributes its value once, without its final period.
  \<open>expand_competency\<close> appends the value without the period and then, with no \<open>else\<close>,
  the whole value again: the description \<open>Bakes bread.\<close> alone gives the indexed text
  \<open>Bakes bread. Bakes bread.\<close> where the claim gives \<open>Bakes bread\<close>.
\<close>

theorem field_combination_trailing_period_twice:
  "FieldCombinationStrategy_expand_competency \<lparr>combination_fields = [DESCRIPTION]\<rparr>
     example_record =
   [example_record\<lparr>indexed_text := Some ''Bakes bread. Bakes bread.''\<rparr>]"
  by (simp add: FieldCombinationStrategy_expand_competency_def combination_parts_def
      getattr_def optional_str_def DESCRIPTION_def example_record_def strip_def isspace_def)

text \<open>
  Claim C9, as stated, fails for Field Combination: its constructor accepts a field list
  with a name that is none of the four indexing fields.
\<close>

theorem field_combination_accepts_unknown_field_counterexample:
  "''salary'' \<noteq> TITLE \<and> ''salary'' \<noteq> DESCRIPTION \<and> ''salary'' \<noteq> CATEGORY \<and>
   ''salary'' \<noteq> KEYWORDS \<and>
   FieldCombinationStrategy_init [''salary''] = Inr \<lparr>combination_fields = [''salary'']\<rparr>"
  by (simp add: FieldCombinationStrategy_init_def TITLE_def DESCRIPTION_def CATEGORY_def
      KEYWORDS_def)

text \<open>
  Claim C9, amended. Constructing the Field Duplication strategy raises \<open>ValueError\<close>,
  carrying the unknown names, exactly when the field list has a name outside
  \<open>title\<close>, \<open>description\<close>, \<open>category\<close>, \<open>keywords\<close>; no strategy exists then, so nothing
  is expanded. Constructing the Field Combination strategy checks nothing and succeeds
  on every field list.
\<close>

theorem strategy_construction_validation:
  "((\<exists>f\<in>set flds. f \<notin> {TITLE, DESCRIPTION, CATEGORY, KEYWORDS}) \<longrightarrow>
      FieldDuplicationStrategy_init flds =
        Inl (ValueError (set flds - {TITLE, DESCRIPTION, CATEGORY, KEYWORDS}))) \<and>
   (set flds \<subseteq> {TITLE, DESCRIPTION, CATEGORY, KEYWORDS} \<longrightarrow>
      FieldDuplicationStrategy_init flds = Inr \<lparr>duplication_fields = flds\<rparr>) \<and>
   FieldCombinationStrategy_init flds = Inr \<lparr>combination_fields = flds\<rparr>"
proof (intro conjI impI)
  assume "\<exists>f\<in>set flds. f \<notin> {TITLE, DESCRIPTION, CATEGORY, KEYWORDS}"
  then have "set flds - {TITLE, DESCRIPTION, CATEGORY, KEYWORDS} \<noteq> {}" by blast
  then show "FieldDuplicationStrategy_init flds =
        Inl (ValueError (set flds - {TITLE, DESCRIPTION, CATEGORY, KEYWORDS}))"
    unfolding FieldDuplicationStrategy_init_def field_extractor_keys Let_def by simp
next
  assume "set flds \<subseteq> {TITLE, DESCRIPTION, CATEGORY, KEYWORDS}"
  then have "set flds - {TITLE, DESCRIPTION, CATEGORY, KEYWORDS} = {}" by blast
  then show "FieldDuplicationStrategy_init flds = Inr \<lparr>duplication_fields = flds\<rparr>"
    unfolding FieldDuplicationStrategy_init_def field_extractor_keys Let_def by simp
next
  show "FieldCombinationStrategy_init flds = Inr \<lparr>combination_fields = flds\<rparr>"
    by (simp add: FieldCombinationStrategy_init_def)
qed

theorem strategy_construction_validation_witness:
  "FieldDuplicationStrategy_init [''title'', ''salary''] = Inl (ValueError {''salary''}) \<and>
   FieldDuplicationStrategy_init [''title'', ''keywords''] =
     Inr \<lparr>duplication_fields = [''title'', ''keywords'']\<rparr>"
  using strategy_construction_validation [where flds = "[''title'', ''salary'']"]
    strategy_construction_validation [where flds = "[''title'', ''keywords'']"]
  by (simp add: TITLE_def DESCRIPTION_def CATEGORY_def KEYWORDS_def)

section \<open>Properties of the string methods\<close>

lemma contains_single: "contains s [c] \<longleftrightarrow> c \<in> set s"
  by (induction s) (auto simp: startswith_def)

lemma split_from_single_length:
  "length (split_from [c] acc s) = Suc (count_list s c)"
  by (induction s arbitrary: acc) (auto simp: startswith_def)

lemma split_on_single_length: "length (split_on [c] s) = Suc (count_list s c)"
  by (simp add: split_on_def split_from_single_length)

lemma last_dropWhile: "dropWhile P xs \<noteq> [] \<Longrightarrow> last (dropWhile P xs) = last xs"
  by (induction xs) (auto split: if_splits)

lemma strip_ends:
  assumes "strip s \<noteq> []"
  shows "\<not> isspace (hd (strip s))" and "\<not> isspace (last (strip s))"
proof -
  let ?t = "dropWhile isspace s"
  let ?u = "dropWhile isspace (rev ?t)"
  from assms have u: "?u \<noteq> []" by (simp add: strip_def)
  have t: "?t \<noteq> []"
  proof
    assume e: "?t = []"
    have "?u = []" unfolding e by simp
    with u show False by contradiction
  qed
  have "last (strip s) = hd ?u" using u by (simp add: strip_def last_rev)
  moreover have "\<not> isspace (hd ?u)" using u by (rule hd_dropWhile)
  ultimately show "\<not> isspace (last (strip s))" by simp
  have "hd (strip s) = last ?u" using u by (simp add: strip_def hd_rev)
  also have "\<dots> = last (rev ?t)" using u by (rule last_dropWhile)
  also have "\<dots> = hd ?t" using t by (simp add: last_rev)
  finally have "hd (strip s) = hd ?t" .
  moreover have "\<not> isspace (hd ?t)" using t by (rule hd_dropWhile)
  ultimately show "\<not> isspace (hd (strip s))" by simp
qed

lemma strip_id:
  assumes "s \<noteq> []" and "\<not> isspace (hd s)" and "\<not> isspace (last s)"
  shows "strip s = s"
proof -
  from assms have "dropWhile isspace s = s" by (cases s) auto
  moreover from assms have "dropWhile isspace (rev s) = rev s"
    by (cases "rev s") (auto simp: hd_rev)
  ultimately show ?thesis by (simp add: strip_def)
qed

lemma strip_Nil [simp]: "strip [] = []"
  by (simp add: strip_def)

lemma strip_strip [simp]: "strip (strip s) = strip s"
proof (cases "strip s = []")
  case True
  then show ?thesis by simp
next
  case False
  then show ?thesis by (intro strip_id strip_ends)
qed

lemma words_from_clean:
  "w \<in> set (words_from acc s) \<Longrightarrow> \<forall>c\<in>set acc. \<not> isspace c
   \<Longrightarrow> w \<noteq> [] \<and> (\<forall>c\<in>set w. \<not> isspace c)"
proof (induction s arbitrary: acc)
  case Nil
  then show ?case by (cases "acc = []") auto
next
  case (Cons x xs)
  show ?case
  proof (cases "isspace x")
    case True
    show ?thesis
    proof (cases "acc = []")
      case True
      with \<open>isspace x\<close> Cons.prems have "w \<in> set (words_from [] xs)" by simp
      then show ?thesis by (rule Cons.IH) simp
    next
      case False
      with \<open>isspace x\<close> Cons.prems have "w = rev acc \<or> w \<in> set (words_from [] xs)" by simp
      then show ?thesis
      proof
        assume "w = rev acc"
        with False Cons.prems(2) show ?thesis by simp
      next
        assume "w \<in> set (words_from [] xs)"
        then show ?thesis by (rule Cons.IH) simp
      qed
    qed
  next
    case False
    with Cons.prems have "w \<in> set (words_from (x # acc) xs)" by simp
    then show ?thesis by (rule Cons.IH) (use False Cons.prems(2) in simp)
  qed
qed

lemma split_whitespace_clean:
  "w \<in> set (split_whitespace s) \<Longrightarrow> w \<noteq> [] \<and> (\<forall>c\<in>set w. \<not> isspace c)"
  using words_from_clean [of w "[]" s] by (simp add: split_whitespace_def)


lemma join_ends:
  "ws \<noteq> [] \<Longrightarrow> \<forall>w\<in>set ws. w \<noteq> []
   \<Longrightarrow> join sep ws \<noteq> [] \<and> hd (join sep ws) = hd (hd ws) \<and> last (join sep ws) = last (last ws)"
  by (induction sep ws rule: join.induct) auto

lemma join_words_hd:
  assumes "ws \<noteq> []" and "\<forall>w\<in>set ws. w \<noteq> [] \<and> (\<forall>c\<in>set w. \<not> isspace c)"
  shows "join sep ws \<noteq> []" and "\<not> isspace (hd (join sep ws))"
    and "\<not> isspace (last (join sep ws))"
proof -
  from assms have je: "join sep ws \<noteq> [] \<and> hd (join sep ws) = hd (hd ws)
      \<and> last (join sep ws) = last (last ws)"
    by (intro join_ends) auto
  then show "join sep ws \<noteq> []" by simp
  from assms have "hd ws \<in> set ws" and "last ws \<in> set ws" by simp_all
  with assms have "hd (hd ws) \<in> set (hd ws)" "last (last ws) \<in> set (last ws)"
    "\<forall>c\<in>set (hd ws). \<not> isspace c" "\<forall>c\<in>set (last ws). \<not> isspace c"
    by auto
  with je show "\<not> isspace (hd (join sep ws))" "\<not> isspace (last (join sep ws))"
    by auto
qed

section \<open>Properties of the ROME mapper\<close>

lemma two_parts_iff:
  "(\<exists>l r. map strip (split_on [c] a) = [l, r]) \<longleftrightarrow> count_list a c = 1"
proof -
  have "(\<exists>l r. map strip (split_on [c] a) = [l, r]) \<longleftrightarrow> length (split_on [c] a) = 2"
  proof
    assume "\<exists>l r. map strip (split_on [c] a) = [l, r]"
    then obtain l r where "map strip (split_on [c] a) = [l, r]" by auto
    then have "length (map strip (split_on [c] a)) = 2" by simp
    then show "length (split_on [c] a) = 2" by simp
  next
    assume "length (split_on [c] a) = 2"
    then obtain x y where "split_on [c] a = [x, y]"
      by (auto simp: length_Suc_conv numeral_2_eq_2)
    then show "\<exists>l r. map strip (split_on [c] a) = [l, r]" by simp
  qed
  then show ?thesis by (simp add: split_on_single_length)
qed

lemma not_two_shape:
  assumes "length xs \<noteq> 2"
  shows "xs = [] \<or> (\<exists>x. xs = [x]) \<or> (\<exists>x y z zs. xs = x # y # z # zs)"
proof (cases xs)
  case Nil
  then show ?thesis by simp
next
  case (Cons x xs')
  note outer = Cons
  show ?thesis
  proof (cases xs')
    case Nil
    with outer show ?thesis by simp
  next
    case (Cons y ys)
    with outer assms show ?thesis by (cases ys) simp_all
  qed
qed

text \<open>
  Claim C7, as stated, fails when the part after the slash is empty: the second item is
  the prefix alone, not the prefix followed by a space.
\<close>

theorem clean_rome_appelation_empty_right_counterexample:
  "map strip (split_on ''/'' ''Technicien /'') = [''Technicien'', []] \<and>
   length (split_whitespace ''Technicien'') > length (split_whitespace []) \<and>
   join '' '' (take (length (split_whitespace ''Technicien'') - length (split_whitespace []))
     (split_whitespace ''Technicien'')) = ''Technicien'' \<and>
   clean_rome_appelation ''Technicien /'' = [''Technicien'', ''Technicien''] \<and>
   clean_rome_appelation ''Technicien /'' \<noteq> [''Technicien'', ''Technicien'' @ '' '' @ []]"
  by (simp add: clean_rome_appelation_def split_on_def startswith_def strip_def isspace_def
      split_whitespace_def)

text \<open>
  Claim C7, amended. An appellation without a slash is returned alone and unchanged, and
  so is one with two slashes or more. With exactly one slash, \<open>l\<close> and \<open>r\<close> being the trimmed
  parts: if \<open>l\<close> has more words, the result is \<open>l\<close> and the trimmed
  \<open>prefix + " " + r\<close>, where the prefix is the excess leading words of \<open>l\<close>; that is
  \<open>prefix + " " + r\<close> itself unless \<open>r\<close> is empty. If \<open>r\<close> has more words, the result is
  the trimmed \<open>l + " " + suffix\<close> and \<open>r\<close>, where the suffix is the excess trailing words
  of \<open>r\<close>; that is \<open>l + " " + suffix\<close> itself unless \<open>l\<close> is empty. With equal word counts
  the result is \<open>l\<close> and \<open>r\<close>.
\<close>

theorem clean_rome_appelation_cases:
  "(CHR ''/'' \<notin> set a \<longrightarrow> clean_rome_appelation a = [a]) \<and>
   (2 \<le> count_list a (CHR ''/'') \<longrightarrow> clean_rome_appelation a = [a]) \<and>
   (count_list a (CHR ''/'') = 1 \<longrightarrow> (\<exists>l r. map strip (split_on ''/'' a) = [l, r])) \<and>
   (\<forall>l r. map strip (split_on ''/'' a) = [l, r] \<longrightarrow>
      (length (split_whitespace r) < length (split_whitespace l) \<longrightarrow>
         clean_rome_appelation a =
           [l, strip (join '' '' (take (length (split_whitespace l) - length (split_whitespace r))
                                  (split_whitespace l)) @ '' '' @ r)] \<and>
         (r \<noteq> [] \<longrightarrow>
            clean_rome_appelation a =
              [l, join '' '' (take (length (split_whitespace l) - length (split_whitespace r))
                            (split_whitespace l)) @ '' '' @ r])) \<and>
      (length (split_whitespace l) < length (split_whitespace r) \<longrightarrow>
         clean_rome_appelation a =
           [strip (l @ '' '' @ join '' '' (drop (length (split_whitespace l))
                                              (split_whitespace r))), r] \<and>
         (l \<noteq> [] \<longrightarrow>
            clean_rome_appelation a =
              [l @ '' '' @ join '' '' (drop (length (split_whitespace l))
                                         (split_whitespace r)), r])) \<and>
      (length (split_whitespace l) = length (split_whitespace r) \<longrightarrow>
         clean_rome_appelation a = [l, r]))"
proof (intro conjI impI allI)
  assume "CHR ''/'' \<notin> set a"
  then show "clean_rome_appelation a = [a]"
    by (simp add: clean_rome_appelation_def contains_single)
next
  assume "2 \<le> count_list a (CHR ''/'')"
  then have "length (map strip (split_on ''/'' a)) \<noteq> 2"
    by (simp add: split_on_single_length)
  then have "map strip (split_on ''/'' a) = []
      \<or> (\<exists>x. map strip (split_on ''/'' a) = [x])
      \<or> (\<exists>x y z zs. map strip (split_on ''/'' a) = x # y # z # zs)"
    by (rule not_two_shape)
  then show "clean_rome_appelation a = [a]"
    unfolding clean_rome_appelation_def by (elim disjE exE) simp_all
next
  assume "count_list a (CHR ''/'') = 1"
  then show "\<exists>l r. map strip (split_on ''/'' a) = [l, r]" by (simp add: two_parts_iff)
next
  fix l r
  assume parts: "map strip (split_on ''/'' a) = [l, r]"
  then have "\<exists>l r. map strip (split_on ''/'' a) = [l, r]" by simp
  then have one: "count_list a (CHR ''/'') = 1" by (simp only: two_parts_iff)
  have "CHR ''/'' \<in> set a"
  proof (rule ccontr)
    assume "CHR ''/'' \<notin> set a"
    then have "count_list a (CHR ''/'') = 0" by (simp add: count_list_0_iff)
    with one show False by simp
  qed
  then have slash: "contains a ''/''" by (simp add: contains_single)
  from parts obtain x y where xy: "split_on ''/'' a = [x, y]" "l = strip x" "r = strip y"
    by (auto simp: map_eq_Cons_conv)
  then have sl: "strip l = l" and sr: "strip r = r" by simp_all
  let ?wl = "split_whitespace l" and ?wr = "split_whitespace r"
  {
    assume more: "length ?wr < length ?wl"
    with slash parts sl sr
    show general: "clean_rome_appelation a =
        [l, strip (join '' '' (take (length ?wl - length ?wr) ?wl) @ '' '' @ r)]"
      by (simp add: clean_rome_appelation_def Let_def)
    assume "r \<noteq> []"
    let ?p = "join '' '' (take (length ?wl - length ?wr) ?wl)"
    have ne: "take (length ?wl - length ?wr) ?wl \<noteq> []" using more by auto
    have clean: "\<forall>w\<in>set (take (length ?wl - length ?wr) ?wl).
        w \<noteq> [] \<and> (\<forall>c\<in>set w. \<not> isspace c)"
      using split_whitespace_clean by (auto dest: in_set_takeD)
    have p: "?p \<noteq> []" "\<not> isspace (hd ?p)"
      using join_words_hd(1,2) [OF ne clean] by simp_all
    have "\<not> isspace (last r)" using strip_ends(2) [of y] xy \<open>r \<noteq> []\<close> by simp
    with p \<open>r \<noteq> []\<close> have "strip (?p @ '' '' @ r) = ?p @ '' '' @ r"
      by (intro strip_id) simp_all
    with general show "clean_rome_appelation a = [l, ?p @ '' '' @ r]" by simp
  }
  {
    assume more: "length ?wl < length ?wr"
    with slash parts sl sr
    show general: "clean_rome_appelation a =
        [strip (l @ '' '' @ join '' '' (drop (length ?wl) ?wr)), r]"
      by (simp add: clean_rome_appelation_def Let_def)
    assume "l \<noteq> []"
    let ?s = "join '' '' (drop (length ?wl) ?wr)"
    have ne: "drop (length ?wl) ?wr \<noteq> []" using more by auto
    have clean: "\<forall>w\<in>set (drop (length ?wl) ?wr).
        w \<noteq> [] \<and> (\<forall>c\<in>set w. \<not> isspace c)"
      using split_whitespace_clean by (auto dest: in_set_dropD)
    have s: "?s \<noteq> []" "\<not> isspace (last ?s)"
      using join_words_hd(1,3) [OF ne clean] by simp_all
    have "\<not> isspace (hd l)" using strip_ends(1) [of x] xy \<open>l \<noteq> []\<close> by simp
    with s \<open>l \<noteq> []\<close> have "strip (l @ '' '' @ ?s) = l @ '' '' @ ?s"
      by (intro strip_id) simp_all
    with general show "clean_rome_appelation a = [l @ '' '' @ ?s, r]" by simp
  }
  {
    assume "length ?wl = length ?wr"
    with slash parts sl sr show "clean_rome_appelation a = [l, r]"
      by (simp add: clean_rome_appelation_def Let_def)
  }
qed

theorem clean_rome_appelation_cases_witness:
  "clean_rome_appelation ''Boulanger'' = [''Boulanger''] \<and>
   clean_rome_appelation ''a/b/c'' = [''a/b/c''] \<and>
   clean_rome_appelation ''Technicien de maintenance industrielle / Technicienne'' =
     [''Technicien de maintenance industrielle'', ''Technicien de maintenance Technicienne''] \<and>
   clean_rome_appelation ''Agent / Agente de securite'' =
     [''Agent de securite'', ''Agente de securite''] \<and>
   clean_rome_appelation ''Vendeur en gros / Vendeuse en gros'' =
     [''Vendeur en gros'', ''Vendeuse en gros'']"
  using clean_rome_appelation_cases [where a = "''Boulanger''"]
    clean_rome_appelation_cases [where a = "''a/b/c''"]
    clean_rome_appelation_cases
      [where a = "''Technicien de maintenance industrielle / Technicienne''"]
    clean_rome_appelation_cases [where a = "''Agent / Agente de securite''"]
    clean_rome_appelation_cases [where a = "''Vendeur en gros / Vendeuse en gros''"]
  by (simp add: split_on_def startswith_def strip_def isspace_def split_whitespace_def)

section \<open>Properties of the keyword lists\<close>

lemma set_sorted_set [simp]: "set (sorted_set xs) = set xs"
  by (simp add: sorted_set_def)

lemma sorted_sorted_set [simp]: "sorted (sorted_set xs)"
  by (simp add: sorted_set_def)

lemma distinct_sorted_set [simp]: "distinct (sorted_set xs)"
  by (simp add: sorted_set_def)

lemma title_char_nonempty [simp]: "title_char c \<noteq> []"
  by (simp add: title_char_def)

lemma capitalize_Nil_iff [simp]: "capitalize s = [] \<longleftrightarrow> s = []"
  by (cases s) simp_all

lemma Nil_capitalize_iff [simp]: "[] = capitalize s \<longleftrightarrow> s = []"
  by (cases s) simp_all


lemma EscoMapper_keywords:
  "EscoMapper_to_competency e = Inr c \<Longrightarrow>
   keywords_field c = Some (esco_keywords e) \<and> title c = capitalize (strip (preferred_label e))"
  by (auto simp: EscoMapper_to_competency_def Let_def split: option.splits)

lemma esco_keywords_no_split:
  assumes "length (split_on ''/'' (capitalize (strip (preferred_label e)))) \<noteq> 2"
  shows "esco_keywords e =
    sorted_set (map capitalize (filter (\<lambda>keyword. strip keyword \<noteq> []) (esco_label_keywords e)))"
proof -
  let ?t = "capitalize (strip (preferred_label e))"
  from assms have "length (map strip (split_on ''/'' ?t)) \<noteq> 2" by simp
  then have "map strip (split_on ''/'' ?t) = []
      \<or> (\<exists>x. map strip (split_on ''/'' ?t) = [x])
      \<or> (\<exists>x y z zs. map strip (split_on ''/'' ?t) = x # y # z # zs)"
    by (rule not_two_shape)
  then have "length (clean_esco_appelation ?t) = 1"
    unfolding clean_esco_appelation_def by (elim disjE exE) simp_all
  then show ?thesis by (simp add: esco_keywords_def esco_collected_keywords_def Let_def)
qed

lemma esco_keywords_split:
  assumes "map strip (split_on ''/'' (capitalize (strip (preferred_label e)))) = [l, r]"
  shows "(l \<noteq> [] \<longrightarrow> capitalize l \<in> set (esco_keywords e)) \<and>
         (r \<noteq> [] \<longrightarrow> capitalize r \<in> set (esco_keywords e))"
proof -
  let ?t = "capitalize (strip (preferred_label e))"
  from assms have "\<exists>l r. map strip (split_on ''/'' ?t) = [l, r]" by simp
  then have one: "count_list ?t (CHR ''/'') = 1" by (simp only: two_parts_iff)
  have "CHR ''/'' \<in> set ?t"
  proof (rule ccontr)
    assume "CHR ''/'' \<notin> set ?t"
    then have "count_list ?t (CHR ''/'') = 0" by (simp add: count_list_0_iff)
    with one show False by simp
  qed
  then have "contains ?t ''/''" by (simp add: contains_single)
  with assms have parts: "clean_esco_appelation ?t = [l, r]"
    by (simp add: clean_esco_appelation_def)
  from assms obtain x y where "l = strip x" "r = strip y" by (auto simp: map_eq_Cons_conv)
  then have "strip l = l" "strip r = r" by simp_all
  with parts show ?thesis
    by (auto simp: esco_keywords_def esco_collected_keywords_def Let_def)
qed

section \<open>Properties of the ESCO mapper\<close>

text \<open>
  Claim C8, as stated, fails on the label \<open>baker / PASTRY CHEF\<close>: the cleaned title is
  \<open>Baker / pastry chef\<close>, and the second half, \<open>PASTRY CHEF\<close> in the label and
  \<open>pastry chef\<close> in the cleaned title, is in the keywords only in its capitalized form.
\<close>

theorem esco_title_half_not_keyword_counterexample:
  "EscoMapper_to_competency (example_esco ''baker / PASTRY CHEF'' None) =
     Inr \<lparr>code = ''http://data.europa.eu/esco/occupation/7512'', lang = EN,
          type = OCCUPATION, provider = ESCO, title = ''Baker / pastry chef'',
          url = Some ''http://data.europa.eu/esco/occupation/7512'',
          category = None, description = Some ''Bakes bread.'',
          keywords_field = Some [''Baker'', ''Pastry chef''],
          indexed_text = Some ''Baker / pastry chef''\<rparr> \<and>
   count_list ''Baker / pastry chef'' (CHR ''/'') = 1 \<and>
   map strip (split_on ''/'' ''Baker / pastry chef'') = [''Baker'', ''pastry chef''] \<and>
   map strip (split_on ''/'' ''baker / PASTRY CHEF'') = [''baker'', ''PASTRY CHEF''] \<and>
   ''pastry chef'' \<notin> set [''Baker'', ''Pastry chef''] \<and>
   ''PASTRY CHEF'' \<notin> set [''Baker'', ''Pastry chef'']"
  by (simp add: EscoMapper_to_competency_def Let_def example_esco_def truthy_def esco_keywords_def
      esco_collected_keywords_def esco_label_keywords_def clean_esco_appelation_def
      strip_def isspace_def title_char_def lower_char_def char_of_def bit_Suc_0_iff
      split_on_def startswith_def sorted_set_def less_eq_char_def less_char_def)

text \<open>
  Claim C8, amended. When the cleaned title of an ESCO record holds exactly one slash, it
  splits into two trimmed halves, and the capitalized form of each half that is not empty
  is among the keywords of the output. When it holds no slash, or more than one, the
  keywords are those of \<open>alt_labels\<close> and \<open>hidden_labels\<close> alone.
\<close>

theorem esco_title_split_keywords:
  assumes "EscoMapper_to_competency e = Inr c"
  shows "(count_list (title c) (CHR ''/'') = 1 \<longrightarrow>
           (\<exists>l r ks. map strip (split_on ''/'' (title c)) = [l, r] \<and>
              keywords_field c = Some ks \<and>
              (l \<noteq> [] \<longrightarrow> capitalize l \<in> set ks) \<and>
              (r \<noteq> [] \<longrightarrow> capitalize r \<in> set ks))) \<and>
         (count_list (title c) (CHR ''/'') \<noteq> 1 \<longrightarrow>
           keywords_field c =
             Some (sorted_set (map capitalize
               (filter (\<lambda>keyword. strip keyword \<noteq> []) (esco_label_keywords e)))))"
proof (intro conjI impI)
  from assms have kt: "keywords_field c = Some (esco_keywords e)"
    "title c = capitalize (strip (preferred_label e))"
    by (simp_all add: EscoMapper_keywords)
  {
    assume "count_list (title c) (CHR ''/'') = 1"
    then obtain l r where lr: "map strip (split_on ''/'' (title c)) = [l, r]"
      using two_parts_iff [of "CHR ''/''" "title c"] by auto
    then have "(l \<noteq> [] \<longrightarrow> capitalize l \<in> set (esco_keywords e)) \<and>
         (r \<noteq> [] \<longrightarrow> capitalize r \<in> set (esco_keywords e))"
      unfolding kt by (rule esco_keywords_split)
    with lr kt show "\<exists>l r ks. map strip (split_on ''/'' (title c)) = [l, r] \<and>
              keywords_field c = Some ks \<and>
              (l \<noteq> [] \<longrightarrow> capitalize l \<in> set ks) \<and>
              (r \<noteq> [] \<longrightarrow> capitalize r \<in> set ks)"
      by auto
  }
  {
    assume "count_list (title c) (CHR ''/'') \<noteq> 1"
    then have "length (split_on ''/'' (capitalize (strip (preferred_label e)))) \<noteq> 2"
      unfolding kt by (simp add: split_on_single_length)
    then show "keywords_field c =
             Some (sorted_set (map capitalize
               (filter (\<lambda>keyword. strip keyword \<noteq> []) (esco_label_keywords e))))"
      unfolding kt by (simp add: esco_keywords_no_split)
  }
qed

theorem esco_title_split_keywords_witness:
  "(\<exists>c ks. EscoMapper_to_competency (example_esco ''Baker / Pastry chef'' None) = Inr c \<and>
      keywords_field c = Some ks \<and> ''Baker'' \<in> set ks \<and> ''Pastry chef'' \<in> set ks) \<and>
   (\<exists>c. EscoMapper_to_competency
        (example_esco ''Senior backend / frontend / mobile engineer''
           (Some ''bread maker | BAKER'')) = Inr c \<and>
      keywords_field c = Some [''Baker'', ''Bread maker''])"
proof
  let ?E = "example_esco ''Baker / Pastry chef'' None"
  have "\<exists>c. EscoMapper_to_competency ?E = Inr c \<and> title c = ''Baker / pastry chef''"
    by (simp add: EscoMapper_to_competency_def Let_def example_esco_def truthy_def
        strip_def isspace_def title_char_def lower_char_def char_of_def bit_Suc_0_iff)
  then obtain c where c: "EscoMapper_to_competency ?E = Inr c"
    and t: "title c = ''Baker / pastry chef''" by auto
  from esco_title_split_keywords [OF c]
  have "\<exists>l r ks. map strip (split_on ''/'' ''Baker / pastry chef'') = [l, r] \<and>
      keywords_field c = Some ks \<and>
      (l \<noteq> [] \<longrightarrow> capitalize l \<in> set ks) \<and> (r \<noteq> [] \<longrightarrow> capitalize r \<in> set ks)"
    unfolding t by simp
  then have "\<exists>ks. keywords_field c = Some ks \<and> ''Baker'' \<in> set ks \<and> ''Pastry chef'' \<in> set ks"
    by (auto simp: split_on_def startswith_def strip_def isspace_def title_char_def
        lower_char_def char_of_def bit_Suc_0_iff)
  with c show "\<exists>c ks. EscoMapper_to_competency ?E = Inr c \<and>
      keywords_field c = Some ks \<and> ''Baker'' \<in> set ks \<and> ''Pastry chef'' \<in> set ks"
    by auto
next
  let ?E = "example_esco ''Senior backend / frontend / mobile engineer''
           (Some ''bread maker | BAKER'')"
  have "\<exists>c. EscoMapper_to_competency ?E = Inr c \<and>
      title c = ''Senior backend / frontend / mobile engineer''"
    by (simp add: EscoMapper_to_competency_def Let_def example_esco_def truthy_def
        strip_def isspace_def title_char_def lower_char_def char_of_def bit_Suc_0_iff)
  then obtain c where c: "EscoMapper_to_competency ?E = Inr c"
    and t: "title c = ''Senior backend / frontend / mobile engineer''" by auto
  from esco_title_split_keywords [OF c]
  have "keywords_field c =
      Some (sorted_set (map capitalize
        (filter (\<lambda>keyword. strip keyword \<noteq> []) (esco_label_keywords ?E))))"
    unfolding t by simp
  then have "keywords_field c = Some [''Baker'', ''Bread maker'']"
    by (simp add: esco_label_keywords_def example_esco_def truthy_def esco_alt_label_list_def
        stripped_labels_def split_on_def startswith_def strip_def isspace_def title_char_def
        lower_char_def char_of_def bit_Suc_0_iff sorted_set_def less_eq_char_def less_char_def)
  with c show "\<exists>c. EscoMapper_to_competency ?E = Inr c \<and>
      keywords_field c = Some [''Baker'', ''Bread maker'']"
    by auto
qed

section \<open>Keywords of the four mappers\<close>

lemmas string_eval =
  strip_def isspace_def title_char_def lower_char_def char_of_def bit_Suc_0_iff
  split_on_def startswith_def sorted_set_def less_eq_char_def less_char_def




text \<open>
  The FORMA mapper sorts and deduplicates before it capitalizes: a ROME term that is not
  already capitalized can leave the list unsorted and with a duplicate.
\<close>

lemma forma_keywords_capitalized_after_sorting:
  "keywords_field (FormaMapper_to_competency
     (example_forma (Some ''Zoo $ conduite tp'') (Some ''H2102 apple $ N1101 Conduite TP''))) =
   Some [''Conduite tp'', ''Conduite tp'', ''Zoo'', ''Apple'']"
  by (simp add: FormaMapper_to_competency_def Let_def forma_cleaned_keywords_def
      example_forma_def forma_cleaned_semantic_field_def forma_synonyms_def
      forma_cleaned_specific_terms_def forma_cleaned_associated_terms_def
      forma_cleaned_rome_def dollar_terms_def remove_code_from_str_def truthy_def string_eval)

section \<open>Case of ASCII keywords\<close>


















end
